theory Spec2Isabelle
  imports Complex_Main "HOL-Library.Log_Nat"
begin

section \<open>Order management service: data model\<close>

text \<open>
  The service of \<^verbatim>\<open>src/index.js\<close> keeps three tables (products, orders, bills) and
  offers, among others, the two operations verified here: \<^verbatim>\<open>POST /orders\<close> (order
  creation with pricing) and \<^verbatim>\<open>PUT /orders/:id/status\<close> (status transition with bill
  emission).

  Numbers. A JavaScript number is a double. Prices and weights are integer columns, and
  sums of integers are exact below \<open>2^53\<close>; the model uses unbounded \<open>int\<close> for them and
  takes the quotient \<^verbatim>\<open>orderTotalWeight / 10\<close> exactly, which below that limit rounds to
  the same integer as the double quotient. The discounted total
  \<^verbatim>\<open>totalAmount * 0.95\<close> is not exact in doubles at ordinary sums; it is modelled as the
  double product, a \<open>number\<close> being the rational value of a finite double.

  Raw identifiers. The entries of \<^verbatim>\<open>req.body.product_list\<close> are arbitrary JSON values.
  The handler only hands them to two library functions, so the model is polymorphic in
  their type \<open>'a\<close> and takes the two library functions as arguments: \<open>joi_number\<close>
  (does \<^verbatim>\<open>Joi.number()\<close> accept the value) and \<open>parseInt\<close> (the value of
  \<^verbatim>\<open>parseInt(id, 0)\<close>, \<open>None\<close> for \<^verbatim>\<open>NaN\<close>).
\<close>

type_synonym number = rat

text \<open>\<^verbatim>\<open>sequelize.define("product", {name, price, weight})\<close>, with the primary key.\<close>

record product =
  product_id :: int
  name :: string
  price :: int
  weight :: int

text \<open>
  An order row: the primary key and the four attributes of
  \<^verbatim>\<open>sequelize.define("order", {status, shipment_amount, total_amount, total_weight})\<close>.
  The model declares no attribute for the product list, and the table has no such
  column.
\<close>

record order =
  order_id :: int
  status :: string
  shipment_amount :: int
  total_amount :: number
  total_weight :: int

text \<open>\<^verbatim>\<open>sequelize.define("bill", {total_amount})\<close>, with the primary key.\<close>

record bill =
  bill_id :: int
  bill_total_amount :: number

text \<open>
  The database: the three tables in row order, and the next primary key of the two
  tables the verified operations insert into.
\<close>

record db =
  products :: "product list"
  orders :: "order list"
  bills :: "bill list"
  order_seq :: int
  bill_seq :: int

text \<open>
  The \<^verbatim>\<open>product_list\<close> property of a request body: a JSON array; a JSON string whose
  text is a JSON array (\<^verbatim>\<open>Joi.array()\<close> parses such a string before it validates, the
  body itself keeps the string); or any other value.
\<close>

datatype 'a body_value =
  Array "'a list"
| Array_text "'a list"
| Other_value

text \<open>
  What a handler sends: \<^verbatim>\<open>res.status(code)\<close>, the \<^verbatim>\<open>Location\<close> header (the identifier
  in \<^verbatim>\<open>/orders/<id>\<close>) and the \<^verbatim>\<open>data\<close> array of the body, when there is one.
  An entry of \<^verbatim>\<open>data\<close> is a \<^verbatim>\<open>{message, context}\<close> object: either one that the
  schema validation produced (kept symbolic, by the kind of the failure), or one the
  handler wrote itself.
\<close>

datatype joi_error =
  any_required
| array_base
| array_includes nat

datatype detail =
  Schema_detail joi_error
| Detail string "(string \<times> string) list"

record response =
  code :: nat
  location :: "int option"
  data :: "detail list option"

definition send :: "nat \<Rightarrow> response" where
  "send c = \<lparr>code = c, location = None, data = None\<rparr>"

definition send_data :: "nat \<Rightarrow> detail list \<Rightarrow> response" where
  "send_data c ds = \<lparr>code = c, location = None, data = Some ds\<rparr>"

definition send_location :: "nat \<Rightarrow> int \<Rightarrow> response" where
  "send_location c i = \<lparr>code = c, location = Some i, data = None\<rparr>"

section \<open>Double precision\<close>

text \<open>
  The double nearest to a rational, a tie going to the even significand: \<open>exponent x\<close>
  is the \<open>e\<close> with \<open>2^e \<le> x < 2^(e+1)\<close> for a positive \<open>x\<close>, and \<open>ulp x\<close> the distance
  between the doubles around \<open>x\<close> (53 significant bits, a fixed distance below
  \<open>2^-1022\<close>). Magnitudes from \<open>2^1024\<close> on, which a double gives up as
  \<^verbatim>\<open>Infinity\<close>, are not modelled.
\<close>

definition pow2 :: "int \<Rightarrow> rat" where
  "pow2 e = (if 0 \<le> e then 2 ^ nat e else 1 / 2 ^ nat (- e))"

definition exponent :: "rat \<Rightarrow> int" where
  "exponent x = (if 1 \<le> x then bitlen \<lfloor>x\<rfloor> - 1 else - bitlen (\<lceil>1 / x\<rceil> - 1))"

definition ulp :: "rat \<Rightarrow> rat" where
  "ulp x = pow2 (max (exponent x) (- 1022)) / 2 ^ 52"

definition round_half_even :: "rat \<Rightarrow> int" where
  "round_half_even q =
     (let f = \<lfloor>q\<rfloor>; r = q - of_int f
      in if r < 1 / 2 then f else if 1 / 2 < r then f + 1 else if even f then f else f + 1)"

definition double :: "rat \<Rightarrow> number" where
  "double x =
     (if x = 0 then 0
      else sgn x * of_int (round_half_even (\<bar>x\<bar> / ulp \<bar>x\<bar>)) * ulp \<bar>x\<bar>)"

section \<open>Library operations\<close>

text \<open>
  \<^verbatim>\<open>Joi.validate(req.body, orderSchema, {abortEarly: false})\<close> for
  \<^verbatim>\<open>orderSchema = {product_list: Joi.array().items(Joi.number()).required()}\<close>:
  the key is required, its value has to be an array or the text of one, and every item
  has to be accepted by \<^verbatim>\<open>Joi.number()\<close>; without \<^verbatim>\<open>abortEarly\<close> each failing
  position is reported. The schema sets no minimum length. The request body is
  represented by its \<^verbatim>\<open>product_list\<close> property, \<open>None\<close> when the key is absent.
\<close>

definition items_errors :: "('a \<Rightarrow> bool) \<Rightarrow> 'a list \<Rightarrow> joi_error list" where
  "items_errors joi_number xs =
     map array_includes (filter (\<lambda>i. \<not> joi_number (xs ! i)) [0..<length xs])"

definition Joi_validate :: "('a \<Rightarrow> bool) \<Rightarrow> 'a body_value option \<Rightarrow> joi_error list" where
  "Joi_validate joi_number req_product_list =
     (case req_product_list of
        None \<Rightarrow> [any_required]
      | Some (Array xs) \<Rightarrow> items_errors joi_number xs
      | Some (Array_text xs) \<Rightarrow> items_errors joi_number xs
      | Some Other_value \<Rightarrow> [array_base])"

text \<open>
  \<^verbatim>\<open>Product.findAll({where: {id: {[Op.in]: ids}}})\<close>: the rows whose key is one of the
  identifiers, each row once. With \<^verbatim>\<open>NaN\<close> among the identifiers the query is not valid
  SQL and the call is rejected: \<open>None\<close>.
\<close>

definition Product_findAll_in :: "int option list \<Rightarrow> db \<Rightarrow> product list option" where
  "Product_findAll_in ids d =
     (if None \<in> set ids then None
      else Some (filter (\<lambda>p. Some (product_id p) \<in> set ids) (products d)))"

text \<open>
  \<^verbatim>\<open>Order.create(values)\<close>. A property that is absent takes the \<^verbatim>\<open>defaultValue\<close> of
  the model (\<^verbatim>\<open>"pending"\<close> for the status, 25 for the shipment amount); a property the
  model does not declare, as \<^verbatim>\<open>product_list\<close>, is not written; the row gets the next
  key. The amounts are written as they are given: an engine that converts a number with
  a fraction when it is written to an INTEGER column is not modelled.
\<close>

record 'a order_values =
  values_status :: "string option"
  values_shipment_amount :: "int option"
  values_total_amount :: number
  values_total_weight :: int
  values_product_list :: "'a list"

definition Order_create :: "'a order_values \<Rightarrow> db \<Rightarrow> order \<times> db" where
  "Order_create v d =
     (let row = \<lparr>order_id = order_seq d,
                 status = (case values_status v of None \<Rightarrow> ''pending'' | Some s \<Rightarrow> s),
                 shipment_amount = (case values_shipment_amount v of None \<Rightarrow> 25 | Some a \<Rightarrow> a),
                 total_amount = values_total_amount v,
                 total_weight = values_total_weight v\<rparr>
      in (row, d\<lparr>orders := orders d @ [row], order_seq := order_seq d + 1\<rparr>))"

text \<open>\<^verbatim>\<open>Order.findById(id)\<close>: the row with that key, if there is one.\<close>

definition Order_findById :: "int \<Rightarrow> db \<Rightarrow> order option" where
  "Order_findById i d = find (\<lambda>r. order_id r = i) (orders d)"

text \<open>\<^verbatim>\<open>order.update({status})\<close>: the status of the row with the key of \<open>r\<close> is overwritten.\<close>

definition order_update_status :: "order \<Rightarrow> string \<Rightarrow> db \<Rightarrow> db" where
  "order_update_status r s d =
     d\<lparr>orders := map (\<lambda>x. if order_id x = order_id r then x\<lparr>status := s\<rparr> else x) (orders d)\<rparr>"

text \<open>\<^verbatim>\<open>Bill.create({total_amount})\<close>: a new bill row with the next key.\<close>

definition Bill_create :: "number \<Rightarrow> db \<Rightarrow> db" where
  "Bill_create amount d =
     d\<lparr>bills := bills d @ [\<lparr>bill_id = bill_seq d, bill_total_amount = amount\<rparr>],
       bill_seq := bill_seq d + 1\<rparr>"

text \<open>
  \<^verbatim>\<open>Math.round(x)\<close>: the integer closest to \<open>x\<close>, the greater one when two are equally
  close.
\<close>

definition Math_round :: "rat \<Rightarrow> int" where
  "Math_round x = \<lfloor>x + 1 / 2\<rfloor>"

section \<open>Order creation: \<^verbatim>\<open>POST /orders\<close>\<close>

definition SHIPMENT_PRICE_STEP :: int where
  "SHIPMENT_PRICE_STEP = 25"

definition SHIPMENT_WEIGHT_STEP :: int where
  "SHIPMENT_WEIGHT_STEP = 10"

definition DISCOUNT_THRESHOLD :: number where
  "DISCOUNT_THRESHOLD = 1000"

text \<open>The literal \<^verbatim>\<open>0.95\<close> denotes the double nearest to 95/100.\<close>

definition DISCOUNT_RATIO :: number where
  "DISCOUNT_RATIO = double (95 / 100)"

text \<open>\<^verbatim>\<open>productListData.map(p => p.weight).reduce((prev, cur) => prev + cur, 0)\<close>\<close>

definition orderTotalWeight :: "product list \<Rightarrow> int" where
  "orderTotalWeight productListData = foldl (\<lambda>prev cur. prev + cur) 0 (map weight productListData)"

text \<open>\<^verbatim>\<open>productListData.map(p => p.price).reduce((prev, cur) => prev + cur, 0)\<close>\<close>

definition orderProductListPrice :: "product list \<Rightarrow> int" where
  "orderProductListPrice productListData = foldl (\<lambda>prev cur. prev + cur) 0 (map price productListData)"

text \<open>\<^verbatim>\<open>SHIPMENT_PRICE_STEP * Math.round(orderTotalWeight / SHIPMENT_WEIGHT_STEP)\<close>\<close>

definition orderShipmentPrice :: "product list \<Rightarrow> int" where
  "orderShipmentPrice productListData =
     SHIPMENT_PRICE_STEP *
       Math_round (of_int (orderTotalWeight productListData) / of_int SHIPMENT_WEIGHT_STEP)"

text \<open>
  \<^verbatim>\<open>let totalAmount = orderProductListPrice + orderShipmentPrice;
  if (totalAmount > DISCOUNT_THRESHOLD) totalAmount = totalAmount * DISCOUNT_RATIO;\<close>
  The product is a double product.
\<close>

definition totalAmount :: "product list \<Rightarrow> number" where
  "totalAmount productListData =
     (let t = of_int (orderProductListPrice productListData + orderShipmentPrice productListData)
      in if t > DISCOUNT_THRESHOLD then double (t * DISCOUNT_RATIO) else t)"

text \<open>
  The handler. Its result is the response, or \<open>None\<close> when the handler throws before it
  sends one, and the database afterwards. It throws when
  \<^verbatim>\<open>req.body.product_list\<close> has no \<^verbatim>\<open>map\<close> method, which is the case of a string that
  passed the schema as the text of an array, and when the product query is rejected.
  Nothing catches either, and nothing has been written by then.
\<close>

definition post_orders ::
  "('a \<Rightarrow> bool) \<Rightarrow> ('a \<Rightarrow> int option) \<Rightarrow> db \<Rightarrow> 'a body_value option \<Rightarrow> response option \<times> db" where
  "post_orders joi_number parseInt d req_product_list =
     (let error = Joi_validate joi_number req_product_list in
      if error \<noteq> [] then (Some (send_data 400 (map Schema_detail error)), d)
      else
        (case req_product_list of
           None \<Rightarrow> (None, d)
         | Some (Array_text xs) \<Rightarrow> (None, d)
         | Some Other_value \<Rightarrow> (None, d)
         | Some (Array raw) \<Rightarrow>
             (case Product_findAll_in (map parseInt raw) d of
                None \<Rightarrow> (None, d)
              | Some productList \<Rightarrow>
                  if length productList = 0
                  then (Some (send_data 400
                          [Detail ''Unknown products'' [(''key'', ''product_list'')]]), d)
                  else
                    (let orderData = \<lparr>values_status = None,
                                      values_shipment_amount = Some (orderShipmentPrice productList),
                                      values_total_amount = totalAmount productList,
                                      values_total_weight = orderTotalWeight productList,
                                      values_product_list = raw\<rparr>;
                         (order, d') = Order_create orderData d
                     in (Some (send_location 201 (order_id order)), d')))))"

section \<open>Status transition: \<^verbatim>\<open>PUT /orders/:id/status\<close>\<close>

text \<open>
  \<open>req_status\<close> is \<^verbatim>\<open>req.body.status\<close>, \<open>None\<close> when the body has no such property.
  \<^verbatim>\<open>Bill.create\<close> is issued before the order is updated.
\<close>

definition put_orders_status :: "db \<Rightarrow> int \<Rightarrow> string option \<Rightarrow> response \<times> db" where
  "put_orders_status d i req_status =
     (case Order_findById i d of
        None \<Rightarrow> (send 404, d)
      | Some order \<Rightarrow>
          (case req_status of
             None \<Rightarrow> (send 400, d)
           | Some s \<Rightarrow>
               if s \<notin> set [''pending'', ''paid'', ''cancelled''] then (send 400, d)
               else
                 (let d1 = (if s = ''paid'' then Bill_create (total_amount order) d else d);
                      d2 = order_update_status order s d1
                  in (send 200, d2))))"

section \<open>Concrete requests and databases\<close>

text \<open>
  The inputs at which the theorems below are evaluated. The raw identifiers are JSON
  integer literals (of a magnitude that \<^verbatim>\<open>parseInt\<close> reads back as it is),
  \<^verbatim>\<open>null\<close>, and the string \<^verbatim>\<open>".5"\<close>. \<^verbatim>\<open>Joi.number()\<close> accepts the integers, rejects
  \<^verbatim>\<open>null\<close>, and accepts the string, which it converts to 0.5; \<^verbatim>\<open>parseInt\<close> finds no
  digit at the start of \<^verbatim>\<open>"null"\<close> or of \<^verbatim>\<open>".5"\<close> and returns \<^verbatim>\<open>NaN\<close>.
\<close>

datatype json = JSON_number int | JSON_null | JSON_string_half

fun joi_number_json :: "json \<Rightarrow> bool" where
  "joi_number_json (JSON_number n) = True"
| "joi_number_json JSON_null = False"
| "joi_number_json JSON_string_half = True"

fun parseInt_json :: "json \<Rightarrow> int option" where
  "parseInt_json (JSON_number n) = Some n"
| "parseInt_json JSON_null = None"
| "parseInt_json JSON_string_half = None"

definition book :: product where
  "book = \<lparr>product_id = 1, name = ''book'', price = 100, weight = 5\<rparr>"

definition desk :: product where
  "desk = \<lparr>product_id = 2, name = ''desk'', price = 1000, weight = 0\<rparr>"

definition lamp :: product where
  "lamp = \<lparr>product_id = 3, name = ''lamp'', price = 1001, weight = 0\<rparr>"

text \<open>A catalog of three products, and no order or bill yet.\<close>

definition shop :: db where
  "shop = \<lparr>products = [book, desk, lamp], orders = [], bills = [], order_seq = 1, bill_seq = 1\<rparr>"

text \<open>
  The same catalog later on: a pending order for the book, a paid order for the desk,
  and the bill of the latter.
\<close>

definition ledger :: db where
  "ledger = \<lparr>products = [book, desk, lamp],
              orders = [\<lparr>order_id = 1, status = ''pending'', shipment_amount = 25,
                         total_amount = 125, total_weight = 5\<rparr>,
                        \<lparr>order_id = 2, status = ''paid'', shipment_amount = 0,
                         total_amount = 1000, total_weight = 0\<rparr>],
              bills = [\<lparr>bill_id = 1, bill_total_amount = 1000\<rparr>],
              order_seq = 3, bill_seq = 2\<rparr>"

section \<open>Rounding to a double\<close>

text \<open>From 1 on, the exponent is not negative and its power of two is below the number.\<close>

lemma pow2_exponent_le:
  assumes "1 \<le> x"
  shows "0 \<le> exponent x" and "pow2 (exponent x) \<le> x"
proof -
  have pos: "0 < \<lfloor>x\<rfloor>" using assms by linarith
  from bitlen_bounds[OF pos] have b: "2 ^ nat (bitlen \<lfloor>x\<rfloor> - 1) \<le> \<lfloor>x\<rfloor>" by simp
  have "bitlen \<lfloor>x\<rfloor> \<noteq> 0" using pos by (simp add: bitlen_eq_zero_iff)
  with bitlen_nonneg[of "\<lfloor>x\<rfloor>"] have one: "1 \<le> bitlen \<lfloor>x\<rfloor>" by linarith
  then show e: "0 \<le> exponent x" using assms by (simp add: exponent_def)
  have "(of_int (2 ^ nat (bitlen \<lfloor>x\<rfloor> - 1)) :: rat) \<le> of_int \<lfloor>x\<rfloor>"
    using b by (simp only: of_int_le_iff)
  also have "\<dots> \<le> x" by simp
  finally show "pow2 (exponent x) \<le> x"
    using assms one by (simp add: pow2_def exponent_def)
qed

text \<open>Rounding to an integer moves a number by a half at most.\<close>

lemma round_half_even_near: "\<bar>of_int (round_half_even q) - q\<bar> \<le> 1 / 2"
proof -
  have f: "of_int \<lfloor>q\<rfloor> \<le> q" "q < of_int \<lfloor>q\<rfloor> + 1" by linarith+
  consider "q - of_int \<lfloor>q\<rfloor> < 1 / 2" | "1 / 2 < q - of_int \<lfloor>q\<rfloor>"
    | "q - of_int \<lfloor>q\<rfloor> = 1 / 2" by linarith
  then show ?thesis
  proof cases
    case 1
    then have "round_half_even q = \<lfloor>q\<rfloor>" by (simp add: round_half_even_def)
    with 1 f show ?thesis by simp
  next
    case 2
    then have "round_half_even q = \<lfloor>q\<rfloor> + 1" by (simp add: round_half_even_def)
    with 2 f show ?thesis by simp
  next
    case 3
    then have "round_half_even q = \<lfloor>q\<rfloor> \<or> round_half_even q = \<lfloor>q\<rfloor> + 1"
      by (simp add: round_half_even_def Let_def)
    with 3 show ?thesis by auto
  qed
qed

text \<open>From 1 on, the nearest double is within the fraction \<open>2^-53\<close> of the number.\<close>

lemma double_near:
  assumes "1 \<le> x"
  shows "\<bar>double x - x\<bar> \<le> x / 2 ^ 53"
proof -
  let ?u = "ulp x"
  let ?m = "round_half_even (x / ?u)"
  have x: "0 < x" "\<bar>x\<bar> = x" "sgn x = 1" "x \<noteq> 0" using assms by simp_all
  have u: "?u = pow2 (exponent x) / 2 ^ 52"
    using pow2_exponent_le(1)[OF assms] by (simp add: ulp_def max_def)
  have p: "0 < pow2 (exponent x)" by (simp add: pow2_def)
  then have upos: "0 < ?u" by (simp add: u)
  have d: "double x = of_int ?m * ?u" using x by (simp add: double_def)
  have "double x - x = (of_int ?m - x / ?u) * ?u"
    using upos by (simp add: d field_simps)
  then have "\<bar>double x - x\<bar> = \<bar>of_int ?m - x / ?u\<bar> * ?u"
    using upos by (simp add: abs_mult)
  also have "\<dots> \<le> 1 / 2 * ?u"
    using round_half_even_near[of "x / ?u"] upos by (intro mult_right_mono) simp_all
  also have "\<dots> = pow2 (exponent x) / 2 ^ 53" by (simp add: u)
  also have "\<dots> \<le> x / 2 ^ 53"
    using pow2_exponent_le(2)[OF assms] by (simp add: divide_right_mono)
  finally show ?thesis .
qed

text \<open>The double of \<^verbatim>\<open>0.95\<close> is 8556839292003942 / 2^53, a little below 95/100.\<close>

lemma DISCOUNT_RATIO_value: "DISCOUNT_RATIO = 4278419646001971 / 4503599627370496"
  unfolding DISCOUNT_RATIO_def by code_simp

text \<open>The discounted double is within the fraction \<open>2^-52\<close> of the sum from 0.95 times the sum.\<close>

lemma discount_near:
  assumes "1000 < (t :: int)"
  shows "\<bar>double (of_int t * DISCOUNT_RATIO) - 95 / 100 * of_int t\<bar> \<le> of_int t / 2 ^ 52"
proof -
  let ?t = "of_int t :: rat"
  let ?p = "?t * DISCOUNT_RATIO"
  have t: "1000 < ?t" using assms by (metis of_int_less_iff of_int_numeral)
  have p1: "1 \<le> ?p" using t by (simp add: DISCOUNT_RATIO_value)
  have pt: "?p \<le> ?t" using t by (simp add: DISCOUNT_RATIO_value)
  have a: "\<bar>double ?p - ?p\<bar> \<le> ?t / 2 ^ 53"
  proof -
    have "?p / 2 ^ 53 \<le> ?t / 2 ^ 53" using pt by (simp add: divide_right_mono)
    with double_near[OF p1] show ?thesis by linarith
  qed
  have b: "\<bar>?p - 95 / 100 * ?t\<bar> \<le> ?t / 2 ^ 54"
    using t by (simp add: DISCOUNT_RATIO_value abs_if field_simps)
  have "\<bar>double ?p - 95 / 100 * ?t\<bar> \<le> ?t / 2 ^ 53 + ?t / 2 ^ 54"
    using a b by linarith
  also have "\<dots> \<le> ?t / 2 ^ 52" using t by (simp add: field_simps)
  finally show ?thesis .
qed

section \<open>Pricing\<close>

lemma foldl_add_sum_list: "foldl (\<lambda>prev cur. prev + cur) a xs = a + sum_list (xs :: int list)"
  by (induction xs arbitrary: a) simp_all

lemma orderTotalWeight_sum: "orderTotalWeight ps = sum_list (map weight ps)"
  by (simp add: orderTotalWeight_def foldl_add_sum_list)

lemma orderProductListPrice_sum: "orderProductListPrice ps = sum_list (map price ps)"
  by (simp add: orderProductListPrice_def foldl_add_sum_list)

text \<open>On tenths of an integer, \<open>Math_round\<close> is an integer division.\<close>

lemma Math_round_tenth: "Math_round (of_int w / of_int 10) = (w + 5) div 10"
proof -
  have "(of_int w / of_int 10 + 1 / 2 :: rat) = of_int (w + 5) / of_int 10"
    by (simp add: field_simps)
  then show ?thesis
    unfolding Math_round_def by (simp only: floor_divide_of_int_eq)
qed

text \<open>\<open>Math_round x\<close> is within a half of \<open>x\<close>, and a tie goes to the greater integer.\<close>

lemma Math_round_nearest:
  "of_int (Math_round x) - 1 / 2 \<le> x \<and> x < of_int (Math_round x) + 1 / 2"
  unfolding Math_round_def by linarith

lemma orderShipmentPrice_div:
  "orderShipmentPrice ps = 25 * ((sum_list (map weight ps) + 5) div 10)"
  using Math_round_tenth[of "sum_list (map weight ps)"]
  by (simp add: orderShipmentPrice_def SHIPMENT_PRICE_STEP_def SHIPMENT_WEIGHT_STEP_def
      orderTotalWeight_sum)

text \<open>The discount: none up to 1000, the double product with \<^verbatim>\<open>0.95\<close> above.\<close>

lemma totalAmount_cases:
  "totalAmount ps =
     (if sum_list (map price ps) + orderShipmentPrice ps \<le> 1000
      then of_int (sum_list (map price ps) + orderShipmentPrice ps)
      else double (of_int (sum_list (map price ps) + orderShipmentPrice ps) * DISCOUNT_RATIO))"
proof -
  let ?t = "sum_list (map price ps) + orderShipmentPrice ps"
  have "((of_int ?t :: rat) > 1000) = (?t > 1000)"
    by (metis of_int_less_iff of_int_numeral)
  then show ?thesis
    by (simp add: totalAmount_def Let_def DISCOUNT_THRESHOLD_def orderProductListPrice_sum not_less)
qed

lemma shipment_desk: "orderShipmentPrice [desk] = 0"
  by (simp add: orderShipmentPrice_div desk_def)

lemma shipment_lamp: "orderShipmentPrice [lamp] = 0"
  by (simp add: orderShipmentPrice_div lamp_def)

text \<open>1001 times \<^verbatim>\<open>0.95\<close> in doubles: 950.9499999999999, which is 8364644659468697 / 2^43.\<close>

lemma double_1001: "double (1001 * DISCOUNT_RATIO) = 8364644659468697 / 8796093022208"
  unfolding DISCOUNT_RATIO_def by code_simp

section \<open>Order creation\<close>

text \<open>
  A request whose product list is an array that passes the schema, with identifiers that
  are all numbers and resolve to at least one product, creates one order row and is
  answered 201 with its location.
\<close>

lemma post_orders_created:
  assumes "Joi_validate joi_number (Some (Array raw)) = []"
      and "Product_findAll_in (map parseInt raw) d = Some items"
      and "items \<noteq> []"
  shows "post_orders joi_number parseInt d (Some (Array raw)) =
           (Some (send_location 201 (order_seq d)),
            d\<lparr>orders := orders d @
                 [\<lparr>order_id = order_seq d, status = ''pending'',
                   shipment_amount = orderShipmentPrice items,
                   total_amount = totalAmount items,
                   total_weight = orderTotalWeight items\<rparr>],
              order_seq := order_seq d + 1\<rparr>)"
  using assms by (simp add: post_orders_def Order_create_def Let_def)

lemma joi_numbers_ok: "Joi_validate joi_number_json (Some (Array [JSON_number a])) = []"
  by (simp add: Joi_validate_def items_errors_def)

lemma joi_two_numbers_ok:
  "Joi_validate joi_number_json (Some (Array [JSON_number a, JSON_number b])) = []"
  by (simp add: Joi_validate_def items_errors_def upt_rec)

lemma shop_book: "Product_findAll_in (map parseInt_json [JSON_number 1]) shop = Some [book]"
  by (simp add: Product_findAll_in_def shop_def book_def desk_def lamp_def)

lemma shop_book_twice:
  "Product_findAll_in (map parseInt_json [JSON_number 1, JSON_number 1]) shop = Some [book]"
  by (simp add: Product_findAll_in_def shop_def book_def desk_def lamp_def)

lemma shop_desk: "Product_findAll_in (map parseInt_json [JSON_number 2]) shop = Some [desk]"
  by (simp add: Product_findAll_in_def shop_def book_def desk_def lamp_def)

lemma shop_lamp: "Product_findAll_in (map parseInt_json [JSON_number 3]) shop = Some [lamp]"
  by (simp add: Product_findAll_in_def shop_def book_def desk_def lamp_def)

lemma shop_desk_lamp:
  "Product_findAll_in (map parseInt_json [JSON_number 2, JSON_number 3]) shop = Some [desk, lamp]"
  by (simp add: Product_findAll_in_def shop_def book_def desk_def lamp_def)

text \<open>
  C1. Whenever order creation reaches the pricing step (the resolved list of products is
  not empty), the order it stores has as \<open>total_weight\<close> the sum of the weights of the
  resolved products, and as \<open>shipment_amount\<close> 25 times the integer \<open>n\<close> nearest to a
  tenth of that weight, a tie going up: \<open>n - 1/2 \<le> total_weight / 10 < n + 1/2\<close>.
  The weights need not be non-negative for this.
\<close>

theorem order_creation_weight_and_shipment:
  assumes "Joi_validate joi_number (Some (Array raw)) = []"
      and "Product_findAll_in (map parseInt raw) d = Some items"
      and "items \<noteq> []"
  shows "\<exists>row n. orders (snd (post_orders joi_number parseInt d (Some (Array raw))))
                    = orders d @ [row]
           \<and> total_weight row = sum_list (map weight items)
           \<and> shipment_amount row = 25 * n
           \<and> of_int n - 1 / 2 \<le> (of_int (total_weight row) / 10 :: rat)
           \<and> (of_int (total_weight row) / 10 :: rat) < of_int n + 1 / 2"
proof -
  let ?w = "sum_list (map weight items)"
  let ?n = "Math_round (of_int ?w / of_int 10)"
  let ?row = "\<lparr>order_id = order_seq d, status = ''pending'',
                shipment_amount = orderShipmentPrice items,
                total_amount = totalAmount items,
                total_weight = orderTotalWeight items\<rparr>"
  have "orders (snd (post_orders joi_number parseInt d (Some (Array raw)))) = orders d @ [?row]"
    by (simp add: post_orders_created[OF assms])
  moreover have "total_weight ?row = ?w"
    by (simp add: orderTotalWeight_sum)
  moreover have "shipment_amount ?row = 25 * ?n"
    by (simp add: orderShipmentPrice_def SHIPMENT_PRICE_STEP_def SHIPMENT_WEIGHT_STEP_def
        orderTotalWeight_sum)
  moreover have "of_int ?n - 1 / 2 \<le> (of_int (total_weight ?row) / 10 :: rat)
      \<and> (of_int (total_weight ?row) / 10 :: rat) < of_int ?n + 1 / 2"
    using Math_round_nearest[of "of_int ?w / of_int 10"] by (simp add: orderTotalWeight_sum)
  ultimately show ?thesis by blast
qed

text \<open>
  At the catalog above, an order for the book (weight 5) has \<open>total_weight = 5\<close> and
  \<open>shipment_amount = 25\<close>: the quotient 0.5 is rounded up to 1.
\<close>

theorem order_creation_weight_and_shipment_witness:
  "Joi_validate joi_number_json (Some (Array [JSON_number 1])) = []
   \<and> Product_findAll_in (map parseInt_json [JSON_number 1]) shop = Some [book]
   \<and> [book] \<noteq> []
   \<and> total_weight (last (orders (snd (post_orders joi_number_json parseInt_json shop
         (Some (Array [JSON_number 1])))))) = 5
   \<and> shipment_amount (last (orders (snd (post_orders joi_number_json parseInt_json shop
         (Some (Array [JSON_number 1])))))) = 25"
proof -
  have h1: "Joi_validate joi_number_json (Some (Array [JSON_number 1])) = []"
    by (rule joi_numbers_ok)
  have h3: "[book] \<noteq> []" by simp
  from order_creation_weight_and_shipment[OF h1 shop_book h3]
  obtain row n where
    row: "orders (snd (post_orders joi_number_json parseInt_json shop
            (Some (Array [JSON_number 1])))) = orders shop @ [row]"
    and w: "total_weight row = sum_list (map weight [book])"
    and s: "shipment_amount row = 25 * n"
    and lo: "of_int n - 1 / 2 \<le> (of_int (total_weight row) / 10 :: rat)"
    and hi: "(of_int (total_weight row) / 10 :: rat) < of_int n + 1 / 2"
    by blast
  have w5: "total_weight row = 5" using w by (simp add: book_def)
  have "(of_int n :: rat) \<le> 1" "(0 :: rat) < of_int n" using lo hi by (simp_all add: w5)
  then have "n \<le> 1" "0 < n" by simp_all
  then have "n = 1" by simp
  with s row w5 h1 shop_book show ?thesis by simp
qed

text \<open>
  C2, as amended. Whenever order creation reaches the pricing step, the \<open>total_amount\<close>
  of the order it stores is the sum of the prices of the resolved products plus the
  order's \<open>shipment_amount\<close> when that sum is at most 1000. When the sum is greater than
  1000 it is the double product of the sum and the double nearest to 0.95: one discount,
  on the combined total, which differs from 0.95 times the sum by at most the sum times
  \<open>2^-52\<close>.
\<close>

theorem order_creation_discounted_total:
  assumes "Joi_validate joi_number (Some (Array raw)) = []"
      and "Product_findAll_in (map parseInt raw) d = Some items"
      and "items \<noteq> []"
  shows "\<exists>row. orders (snd (post_orders joi_number parseInt d (Some (Array raw))))
                  = orders d @ [row]
           \<and> total_amount row =
               (if sum_list (map price items) + shipment_amount row \<le> 1000
                then of_int (sum_list (map price items) + shipment_amount row)
                else double (of_int (sum_list (map price items) + shipment_amount row)
                               * double (95 / 100)))
           \<and> (1000 < sum_list (map price items) + shipment_amount row \<longrightarrow>
                \<bar>total_amount row
                    - 95 / 100 * of_int (sum_list (map price items) + shipment_amount row)\<bar>
                  \<le> of_int (sum_list (map price items) + shipment_amount row) / 2 ^ 52)"
proof -
  let ?row = "\<lparr>order_id = order_seq d, status = ''pending'',
                shipment_amount = orderShipmentPrice items,
                total_amount = totalAmount items,
                total_weight = orderTotalWeight items\<rparr>"
  let ?t = "sum_list (map price items) + shipment_amount ?row"
  have "orders (snd (post_orders joi_number parseInt d (Some (Array raw)))) = orders d @ [?row]"
    by (simp add: post_orders_created[OF assms])
  moreover have v: "total_amount ?row =
      (if ?t \<le> 1000 then of_int ?t else double (of_int ?t * double (95 / 100)))"
    using totalAmount_cases[of items] by (simp add: DISCOUNT_RATIO_def)
  moreover have "1000 < ?t \<longrightarrow> \<bar>total_amount ?row - 95 / 100 * of_int ?t\<bar> \<le> of_int ?t / 2 ^ 52"
  proof
    assume a: "1000 < ?t"
    then have "total_amount ?row = double (of_int ?t * DISCOUNT_RATIO)"
      using v by (simp add: DISCOUNT_RATIO_def)
    with discount_near[OF a] show "\<bar>total_amount ?row - 95 / 100 * of_int ?t\<bar> \<le> of_int ?t / 2 ^ 52"
      by simp
  qed
  ultimately show ?thesis by blast
qed

text \<open>
  An order for the desk (price 1000, weight 0) costs 1000, without discount; an order for
  the lamp (price 1001, weight 0) costs 950.9499999999999, the double product.
\<close>

theorem order_creation_discounted_total_witness:
  "Joi_validate joi_number_json (Some (Array [JSON_number 2])) = []
   \<and> Product_findAll_in (map parseInt_json [JSON_number 2]) shop = Some [desk]
   \<and> Joi_validate joi_number_json (Some (Array [JSON_number 3])) = []
   \<and> Product_findAll_in (map parseInt_json [JSON_number 3]) shop = Some [lamp]
   \<and> total_amount (last (orders (snd (post_orders joi_number_json parseInt_json shop
         (Some (Array [JSON_number 2])))))) = 1000
   \<and> total_amount (last (orders (snd (post_orders joi_number_json parseInt_json shop
         (Some (Array [JSON_number 3])))))) = 8364644659468697 / 8796093022208
   \<and> \<bar>total_amount (last (orders (snd (post_orders joi_number_json parseInt_json shop
         (Some (Array [JSON_number 3])))))) - 95 / 100 * 1001\<bar> \<le> 1001 / 2 ^ 52"
proof -
  have v2: "Joi_validate joi_number_json (Some (Array [JSON_number 2])) = []"
    and v3: "Joi_validate joi_number_json (Some (Array [JSON_number 3])) = []"
    by (rule joi_numbers_ok)+
  have n2: "[desk] \<noteq> []" and n3: "[lamp] \<noteq> []" by simp_all
  from order_creation_discounted_total[OF v2 shop_desk n2]
  obtain r2 where
    o2: "orders (snd (post_orders joi_number_json parseInt_json shop
           (Some (Array [JSON_number 2])))) = orders shop @ [r2]"
    and t2: "total_amount r2 =
       (if sum_list (map price [desk]) + shipment_amount r2 \<le> 1000
        then of_int (sum_list (map price [desk]) + shipment_amount r2)
        else double (of_int (sum_list (map price [desk]) + shipment_amount r2)
                       * double (95 / 100)))"
    by blast
  from order_creation_discounted_total[OF v3 shop_lamp n3]
  obtain r3 where
    o3: "orders (snd (post_orders joi_number_json parseInt_json shop
           (Some (Array [JSON_number 3])))) = orders shop @ [r3]"
    and t3: "total_amount r3 =
       (if sum_list (map price [lamp]) + shipment_amount r3 \<le> 1000
        then of_int (sum_list (map price [lamp]) + shipment_amount r3)
        else double (of_int (sum_list (map price [lamp]) + shipment_amount r3)
                       * double (95 / 100)))"
    and b3: "1000 < sum_list (map price [lamp]) + shipment_amount r3 \<longrightarrow>
        \<bar>total_amount r3 - 95 / 100 * of_int (sum_list (map price [lamp]) + shipment_amount r3)\<bar>
          \<le> of_int (sum_list (map price [lamp]) + shipment_amount r3) / 2 ^ 52"
    by blast
  have s2: "shipment_amount r2 = 0"
    using o2 by (auto simp add: post_orders_created[OF v2 shop_desk n2] shipment_desk)
  have s3: "shipment_amount r3 = 0"
    using o3 by (auto simp add: post_orders_created[OF v3 shop_lamp n3] shipment_lamp)
  have "total_amount r2 = 1000" using t2 s2 by (simp add: desk_def)
  moreover have "total_amount r3 = double (1001 * DISCOUNT_RATIO)"
    using t3 s3 by (simp add: lamp_def DISCOUNT_RATIO_def)
  then have "total_amount r3 = 8364644659468697 / 8796093022208" by (simp only: double_1001)
  moreover have "\<bar>total_amount r3 - 95 / 100 * 1001\<bar> \<le> 1001 / 2 ^ 52"
    using b3 s3 by (simp add: lamp_def)
  ultimately show ?thesis using o2 o3 v2 v3 shop_desk shop_lamp by simp
qed

text \<open>
  The claim as it was stated fails at the order for the lamp: the stored total is the
  double 950.9499999999999 and not 0.95 times 1001, which is 950.95.
\<close>

theorem exact_discount_counterexample:
  "total_amount (last (orders (snd (post_orders joi_number_json parseInt_json shop
      (Some (Array [JSON_number 3])))))) = 8364644659468697 / 8796093022208
   \<and> total_amount (last (orders (snd (post_orders joi_number_json parseInt_json shop
      (Some (Array [JSON_number 3])))))) \<noteq> 95 / 100 * 1001"
proof -
  have n: "[lamp] \<noteq> []" by simp
  have "totalAmount [lamp] = double (1001 * DISCOUNT_RATIO)"
    unfolding totalAmount_cases shipment_lamp by (simp add: lamp_def)
  then have "totalAmount [lamp] = 8364644659468697 / 8796093022208" by (simp only: double_1001)
  then show ?thesis
    unfolding post_orders_created[OF joi_numbers_ok shop_lamp n] by simp
qed

text \<open>
  C5. An order for the book is answered 201 and stored with the status \<open>''pending''\<close> and
  the three amounts of the pricing step, but without the product list of the request:
  the handler does give \<^verbatim>\<open>product_list\<close> to \<^verbatim>\<open>Order.create\<close>, and the order model
  has no attribute to keep it in. So the request \<^verbatim>\<open>[1, 1]\<close> gets the same answer and
  leaves the same database as the request \<^verbatim>\<open>[1]\<close>.
\<close>

theorem order_creation_drops_product_list:
  "post_orders joi_number_json parseInt_json shop (Some (Array [JSON_number 1])) =
     (Some (send_location 201 1),
      shop\<lparr>orders := [\<lparr>order_id = 1, status = ''pending'', shipment_amount = 25,
                         total_amount = 125, total_weight = 5\<rparr>],
           order_seq := 2\<rparr>)
   \<and> post_orders joi_number_json parseInt_json shop (Some (Array [JSON_number 1, JSON_number 1])) =
       post_orders joi_number_json parseInt_json shop (Some (Array [JSON_number 1]))"
proof -
  have n: "[book] \<noteq> []" by simp
  show ?thesis
    unfolding post_orders_created[OF joi_numbers_ok shop_book n]
      post_orders_created[OF joi_two_numbers_ok shop_book_twice n]
    by (simp add: orderShipmentPrice_div orderTotalWeight_sum totalAmount_cases book_def shop_def)
qed

text \<open>
  C6, as amended. An order whose resolved products weigh nothing in total is stored with
  \<open>shipment_amount = 0\<close>: the handler always passes the amount it computed, so the
  default of 25 that the order model declares is not applied.
\<close>

theorem zero_weight_order_ships_for_nothing:
  assumes "Joi_validate joi_number (Some (Array raw)) = []"
      and "Product_findAll_in (map parseInt raw) d = Some items"
      and "items \<noteq> []"
      and "sum_list (map weight items) = 0"
  shows "\<exists>row. orders (snd (post_orders joi_number parseInt d (Some (Array raw))))
                  = orders d @ [row]
           \<and> total_weight row = 0
           \<and> shipment_amount row = 0"
  using assms(4)
  by (simp add: post_orders_created[OF assms(1-3)] orderShipmentPrice_div orderTotalWeight_sum)

theorem zero_weight_order_ships_for_nothing_witness:
  "Joi_validate joi_number_json (Some (Array [JSON_number 2, JSON_number 3])) = []
   \<and> Product_findAll_in (map parseInt_json [JSON_number 2, JSON_number 3]) shop
       = Some [desk, lamp]
   \<and> [desk, lamp] \<noteq> []
   \<and> sum_list (map weight [desk, lamp]) = 0
   \<and> total_weight (last (orders (snd (post_orders joi_number_json parseInt_json shop
         (Some (Array [JSON_number 2, JSON_number 3])))))) = 0
   \<and> shipment_amount (last (orders (snd (post_orders joi_number_json parseInt_json shop
         (Some (Array [JSON_number 2, JSON_number 3])))))) = 0"
proof -
  have h3: "[desk, lamp] \<noteq> []" by simp
  have h4: "sum_list (map weight [desk, lamp]) = 0" by (simp add: desk_def lamp_def)
  from zero_weight_order_ships_for_nothing[OF joi_two_numbers_ok shop_desk_lamp h3 h4]
  obtain row where
    "orders (snd (post_orders joi_number_json parseInt_json shop
        (Some (Array [JSON_number 2, JSON_number 3])))) = orders shop @ [row]"
    "total_weight row = 0" "shipment_amount row = 0"
    by blast
  with joi_two_numbers_ok shop_desk_lamp h4 show ?thesis by simp
qed

text \<open>
  The claim as it was stated fails at an order for the desk, which weighs nothing: the
  order is stored with \<open>shipment_amount = 0\<close>, not 25.
\<close>

theorem zero_weight_shipment_default_counterexample:
  "total_weight (last (orders (snd (post_orders joi_number_json parseInt_json shop
      (Some (Array [JSON_number 2])))))) = 0
   \<and> shipment_amount (last (orders (snd (post_orders joi_number_json parseInt_json shop
      (Some (Array [JSON_number 2])))))) = 0
   \<and> shipment_amount (last (orders (snd (post_orders joi_number_json parseInt_json shop
      (Some (Array [JSON_number 2])))))) \<noteq> 25"
proof -
  have n: "[desk] \<noteq> []" by simp
  show ?thesis
    unfolding post_orders_created[OF joi_numbers_ok shop_desk n]
    by (simp add: orderShipmentPrice_div orderTotalWeight_sum desk_def)
qed

section \<open>Rejected order requests\<close>

lemma Joi_validate_all_invalid:
  assumes "\<forall>x\<in>set raw. \<not> joi_number x"
  shows "Joi_validate joi_number (Some (Array raw)) = map array_includes [0..<length raw]"
proof -
  have "filter (\<lambda>i. \<not> joi_number (raw ! i)) [0..<length raw] = [0..<length raw]"
    using assms by (simp add: filter_id_conv)
  then show ?thesis by (simp add: Joi_validate_def items_errors_def)
qed

lemma post_orders_unknown:
  assumes "Joi_validate joi_number (Some (Array raw)) = []"
      and "Product_findAll_in (map parseInt raw) d = Some []"
  shows "post_orders joi_number parseInt d (Some (Array raw)) =
           (Some (send_data 400 [Detail ''Unknown products'' [(''key'', ''product_list'')]]), d)"
  using assms by (simp add: post_orders_def)

text \<open>
  C4, as amended. A request whose product list is not empty and has only entries that
  \<^verbatim>\<open>Joi.number()\<close> rejects is answered 400 with the schema's error details, one for each
  position, and the database is left as it was. A request whose product list is empty
  passes the schema; it is answered 400 with the handler's own \<^verbatim>\<open>Unknown products\<close>
  detail on the key \<^verbatim>\<open>product_list\<close>, and the database is left as it was.
\<close>

theorem invalid_product_list_rejected:
  "(raw \<noteq> [] \<and> (\<forall>x\<in>set raw. \<not> joi_number x) \<longrightarrow>
      post_orders joi_number parseInt d (Some (Array raw)) =
        (Some (send_data 400 (map (\<lambda>i. Schema_detail (array_includes i)) [0..<length raw])), d))
   \<and> post_orders joi_number parseInt d (Some (Array [])) =
        (Some (send_data 400 [Detail ''Unknown products'' [(''key'', ''product_list'')]]), d)"
proof (intro conjI impI)
  assume a: "raw \<noteq> [] \<and> (\<forall>x\<in>set raw. \<not> joi_number x)"
  then have "Joi_validate joi_number (Some (Array raw)) = map array_includes [0..<length raw]"
    by (simp add: Joi_validate_all_invalid)
  moreover have "map array_includes [0..<length raw] \<noteq> []" using a by simp
  ultimately show "post_orders joi_number parseInt d (Some (Array raw)) =
        (Some (send_data 400 (map (\<lambda>i. Schema_detail (array_includes i)) [0..<length raw])), d)"
    by (simp add: post_orders_def comp_def)
next
  have "Joi_validate joi_number (Some (Array [])) = []"
    by (simp add: Joi_validate_def items_errors_def)
  moreover have "Product_findAll_in (map parseInt []) d = Some []"
    by (simp add: Product_findAll_in_def)
  ultimately show "post_orders joi_number parseInt d (Some (Array [])) =
        (Some (send_data 400 [Detail ''Unknown products'' [(''key'', ''product_list'')]]), d)"
    by (rule post_orders_unknown)
qed

theorem invalid_product_list_rejected_witness:
  "[JSON_null, JSON_null] \<noteq> [] \<and> \<not> joi_number_json JSON_null
   \<and> post_orders joi_number_json parseInt_json shop (Some (Array [JSON_null, JSON_null])) =
       (Some (send_data 400 [Schema_detail (array_includes 0), Schema_detail (array_includes 1)]),
        shop)
   \<and> orders (snd (post_orders joi_number_json parseInt_json shop
        (Some (Array [JSON_null, JSON_null])))) = []"
proof -
  have h: "[JSON_null, JSON_null] \<noteq> [] \<and> (\<forall>x\<in>set [JSON_null, JSON_null]. \<not> joi_number_json x)"
    by simp
  have "[0..<length [JSON_null, JSON_null]] = [0, 1]" by (simp add: upt_rec)
  with invalid_product_list_rejected[of "[JSON_null, JSON_null]" joi_number_json parseInt_json shop] h
  have "post_orders joi_number_json parseInt_json shop (Some (Array [JSON_null, JSON_null])) =
       (Some (send_data 400 [Schema_detail (array_includes 0), Schema_detail (array_includes 1)]),
        shop)"
    by simp
  then show ?thesis by (simp add: shop_def)
qed

text \<open>
  The claim as it was stated fails at the empty product list: the schema reports no
  error there, and the failure is the unknown-products one.
\<close>

theorem empty_product_list_counterexample:
  "Joi_validate joi_number_json (Some (Array [])) = []
   \<and> post_orders joi_number_json parseInt_json shop (Some (Array [])) =
       (Some (send_data 400 [Detail ''Unknown products'' [(''key'', ''product_list'')]]), shop)"
  by (simp add: post_orders_def Joi_validate_def items_errors_def Product_findAll_in_def)

text \<open>
  The two requests that pass the schema and are never answered: an identifier that
  \<open>parseInt\<close> cannot read, and a product list sent as the text of an array.
\<close>

lemma post_orders_nan:
  assumes "Joi_validate joi_number (Some (Array raw)) = []"
      and "None \<in> set (map parseInt raw)"
  shows "post_orders joi_number parseInt d (Some (Array raw)) = (None, d)"
  using assms by (simp add: post_orders_def Product_findAll_in_def)

lemma post_orders_array_text:
  assumes "Joi_validate joi_number (Some (Array_text xs)) = []"
  shows "post_orders joi_number parseInt d (Some (Array_text xs)) = (None, d)"
  using assms by (simp add: post_orders_def)

text \<open>
  C8. The product list \<^verbatim>\<open>[".5"]\<close> passes the schema, and \<^verbatim>\<open>parseInt\<close> makes \<^verbatim>\<open>NaN\<close>
  of its entry, so no identifier resolves to a product; the product query is rejected
  and the handler sends no response, the database being left as it was. The product
  list \<^verbatim>\<open>[7]\<close>, which resolves to no product either, is answered 400 with the
  \<^verbatim>\<open>Unknown products\<close> detail on the key \<^verbatim>\<open>product_list\<close>.
\<close>

theorem nan_identifier_is_not_answered:
  "Joi_validate joi_number_json (Some (Array [JSON_string_half])) = []
   \<and> map parseInt_json [JSON_string_half] = [None]
   \<and> post_orders joi_number_json parseInt_json shop (Some (Array [JSON_string_half]))
       = (None, shop)
   \<and> post_orders joi_number_json parseInt_json shop (Some (Array [JSON_number 7]))
       = (Some (send_data 400 [Detail ''Unknown products'' [(''key'', ''product_list'')]]), shop)"
  by (simp add: post_orders_def Joi_validate_def items_errors_def Product_findAll_in_def
      shop_def book_def desk_def lamp_def)

section \<open>Status transitions\<close>

lemma Order_findById_key: "Order_findById i d = Some r \<Longrightarrow> order_id r = i"
  by (auto simp add: Order_findById_def find_Some_iff)

lemma find_status_overwritten:
  "find (\<lambda>r. order_id r = i) (map (\<lambda>x. if order_id x = i then x\<lparr>status := s\<rparr> else x) xs)
     = map_option (\<lambda>x. x\<lparr>status := s\<rparr>) (find (\<lambda>r. order_id r = i) xs)"
  by (induction xs) simp_all

lemma Order_findById_updated:
  assumes "Order_findById i d = Some r" and "orders d' = orders d"
  shows "Order_findById i (order_update_status r s d') = Some (r\<lparr>status := s\<rparr>)"
  using assms Order_findById_key[OF assms(1)]
  by (simp add: Order_findById_def order_update_status_def find_status_overwritten)

lemma put_orders_status_ok:
  assumes "Order_findById i d = Some r" and "s \<in> set [''pending'', ''paid'', ''cancelled'']"
  shows "put_orders_status d i (Some s) =
           (send 200,
            order_update_status r s (if s = ''paid'' then Bill_create (total_amount r) d else d))"
  using assms by (simp add: put_orders_status_def Let_def)

lemma put_orders_status_missing:
  "Order_findById i d = None \<Longrightarrow> put_orders_status d i req_status = (send 404, d)"
  by (simp add: put_orders_status_def)

lemma put_orders_status_invalid:
  assumes "Order_findById i d = Some r"
      and "req_status \<notin> set (map Some [''pending'', ''paid'', ''cancelled''])"
  shows "put_orders_status d i req_status = (send 400, d)"
  using assms by (cases req_status) (auto simp add: put_orders_status_def)

lemma bills_order_update_status: "bills (order_update_status r s d) = bills d"
  by (simp add: order_update_status_def)

lemma orders_Bill_create: "orders (Bill_create a d) = orders d"
  by (simp add: Bill_create_def)

text \<open>
  C3. A status request for \<open>''paid''\<close> on an order that exists succeeds and adds one
  bill, which carries the \<open>total_amount\<close> stored in the order. Nothing is asked of the
  order's current status: a second such request, on the order that is now paid, adds a
  second bill of the same amount.
\<close>

theorem paid_request_creates_bill:
  assumes "Order_findById i d = Some r"
  shows "fst (put_orders_status d i (Some ''paid'')) = send 200
       \<and> bills (snd (put_orders_status d i (Some ''paid'')))
           = bills d @ [\<lparr>bill_id = bill_seq d, bill_total_amount = total_amount r\<rparr>]
       \<and> bills (snd (put_orders_status (snd (put_orders_status d i (Some ''paid''))) i (Some ''paid'')))
           = bills d @ [\<lparr>bill_id = bill_seq d, bill_total_amount = total_amount r\<rparr>,
                        \<lparr>bill_id = bill_seq d + 1, bill_total_amount = total_amount r\<rparr>]"
proof -
  let ?d1 = "order_update_status r ''paid'' (Bill_create (total_amount r) d)"
  have p: "''paid'' \<in> set [''pending'', ''paid'', ''cancelled'']" by simp
  have first: "put_orders_status d i (Some ''paid'') = (send 200, ?d1)"
    using put_orders_status_ok[OF assms p] by simp
  have found: "Order_findById i ?d1 = Some (r\<lparr>status := ''paid''\<rparr>)"
    by (rule Order_findById_updated[OF assms orders_Bill_create])
  have second: "put_orders_status ?d1 i (Some ''paid'') =
      (send 200, order_update_status (r\<lparr>status := ''paid''\<rparr>) ''paid''
         (Bill_create (total_amount (r\<lparr>status := ''paid''\<rparr>)) ?d1))"
    using put_orders_status_ok[OF found p] by simp
  have b1: "bills ?d1 = bills d @ [\<lparr>bill_id = bill_seq d, bill_total_amount = total_amount r\<rparr>]"
    by (simp add: bills_order_update_status Bill_create_def)
  have s1: "bill_seq ?d1 = bill_seq d + 1"
    by (simp add: order_update_status_def Bill_create_def)
  have b2: "bills (snd (put_orders_status ?d1 i (Some ''paid'')))
      = bills d @ [\<lparr>bill_id = bill_seq d, bill_total_amount = total_amount r\<rparr>,
                   \<lparr>bill_id = bill_seq d + 1, bill_total_amount = total_amount r\<rparr>]"
  proof -
    have "bills (snd (put_orders_status ?d1 i (Some ''paid'')))
        = bills ?d1 @ [\<lparr>bill_id = bill_seq ?d1, bill_total_amount = total_amount r\<rparr>]"
      unfolding second by (simp add: order_update_status_def Bill_create_def)
    then show ?thesis unfolding b1 s1 by simp
  qed
  have e: "snd (put_orders_status d i (Some ''paid'')) = ?d1" by (simp add: first)
  have f: "fst (put_orders_status d i (Some ''paid'')) = send 200" by (simp add: first)
  show ?thesis unfolding e using f b1 b2 by blast
qed

lemma ledger_order_1:
  "Order_findById 1 ledger = Some \<lparr>order_id = 1, status = ''pending'', shipment_amount = 25,
       total_amount = 125, total_weight = 5\<rparr>"
  by (simp add: Order_findById_def ledger_def)

lemma ledger_order_2:
  "Order_findById 2 ledger = Some \<lparr>order_id = 2, status = ''paid'', shipment_amount = 0,
       total_amount = 1000, total_weight = 0\<rparr>"
  by (simp add: Order_findById_def ledger_def)

lemma ledger_order_7: "Order_findById 7 ledger = None"
  by (simp add: Order_findById_def ledger_def)

text \<open>
  The second order of the ledger is already paid and has one bill; two more requests for
  \<open>''paid''\<close> add two more bills.
\<close>

theorem paid_request_creates_bill_witness:
  "Order_findById 2 ledger = Some \<lparr>order_id = 2, status = ''paid'', shipment_amount = 0,
       total_amount = 1000, total_weight = 0\<rparr>
   \<and> fst (put_orders_status ledger 2 (Some ''paid'')) = send 200
   \<and> bills (snd (put_orders_status ledger 2 (Some ''paid'')))
       = [\<lparr>bill_id = 1, bill_total_amount = 1000\<rparr>,
          \<lparr>bill_id = 2, bill_total_amount = 1000\<rparr>]
   \<and> bills (snd (put_orders_status (snd (put_orders_status ledger 2 (Some ''paid''))) 2
         (Some ''paid'')))
       = [\<lparr>bill_id = 1, bill_total_amount = 1000\<rparr>,
          \<lparr>bill_id = 2, bill_total_amount = 1000\<rparr>,
          \<lparr>bill_id = 3, bill_total_amount = 1000\<rparr>]"
  using paid_request_creates_bill[OF ledger_order_2] ledger_order_2
  by (simp add: ledger_def)

text \<open>
  C7. A status request for one of \<open>''pending''\<close>, \<open>''paid''\<close>, \<open>''cancelled''\<close> on an
  order that exists succeeds, and afterwards the order is found with the requested status
  and otherwise as it was, whatever its status was before.
\<close>

theorem recognised_status_is_persisted:
  assumes "Order_findById i d = Some r"
      and "s \<in> set [''pending'', ''paid'', ''cancelled'']"
  shows "fst (put_orders_status d i (Some s)) = send 200
       \<and> Order_findById i (snd (put_orders_status d i (Some s))) = Some (r\<lparr>status := s\<rparr>)"
proof -
  have "orders (if s = ''paid'' then Bill_create (total_amount r) d else d) = orders d"
    by (simp add: orders_Bill_create)
  from Order_findById_updated[OF assms(1) this]
  show ?thesis unfolding put_orders_status_ok[OF assms] by simp
qed

text \<open>A paid order is cancelled, and a pending order is set to pending again.\<close>

theorem recognised_status_is_persisted_witness:
  "Order_findById 2 ledger = Some \<lparr>order_id = 2, status = ''paid'', shipment_amount = 0,
       total_amount = 1000, total_weight = 0\<rparr>
   \<and> ''cancelled'' \<in> set [''pending'', ''paid'', ''cancelled'']
   \<and> fst (put_orders_status ledger 2 (Some ''cancelled'')) = send 200
   \<and> Order_findById 2 (snd (put_orders_status ledger 2 (Some ''cancelled'')))
       = Some \<lparr>order_id = 2, status = ''cancelled'', shipment_amount = 0,
               total_amount = 1000, total_weight = 0\<rparr>
   \<and> Order_findById 1 ledger = Some \<lparr>order_id = 1, status = ''pending'', shipment_amount = 25,
       total_amount = 125, total_weight = 5\<rparr>
   \<and> ''pending'' \<in> set [''pending'', ''paid'', ''cancelled'']
   \<and> fst (put_orders_status ledger 1 (Some ''pending'')) = send 200
   \<and> Order_findById 1 (snd (put_orders_status ledger 1 (Some ''pending'')))
       = Some \<lparr>order_id = 1, status = ''pending'', shipment_amount = 25,
               total_amount = 125, total_weight = 5\<rparr>"
proof -
  have c: "''cancelled'' \<in> set [''pending'', ''paid'', ''cancelled'']"
    and p: "''pending'' \<in> set [''pending'', ''paid'', ''cancelled'']" by simp_all
  from recognised_status_is_persisted[OF ledger_order_2 c]
    recognised_status_is_persisted[OF ledger_order_1 p] ledger_order_1 ledger_order_2
  show ?thesis by simp
qed

text \<open>
  C9. A status request is answered 404 when no order has the identifier; when the order
  exists, it is answered 400 if the requested status is absent or not one of the three
  recognised values, and 200 if it is one of them. The order is looked up first, so a
  request that is wrong on both counts is answered 404.
\<close>

theorem status_transition_outcomes:
  "(Order_findById i d = None \<longrightarrow> fst (put_orders_status d i req_status) = send 404)
   \<and> (Order_findById i d \<noteq> None
        \<and> req_status \<notin> set (map Some [''pending'', ''paid'', ''cancelled''])
      \<longrightarrow> fst (put_orders_status d i req_status) = send 400)
   \<and> (Order_findById i d \<noteq> None
        \<and> req_status \<in> set (map Some [''pending'', ''paid'', ''cancelled''])
      \<longrightarrow> fst (put_orders_status d i req_status) = send 200)"
proof (intro conjI impI)
  assume "Order_findById i d = None"
  then show "fst (put_orders_status d i req_status) = send 404"
    by (simp add: put_orders_status_missing)
next
  assume a: "Order_findById i d \<noteq> None
        \<and> req_status \<notin> set (map Some [''pending'', ''paid'', ''cancelled''])"
  then obtain r where "Order_findById i d = Some r" by blast
  with a show "fst (put_orders_status d i req_status) = send 400"
    by (simp add: put_orders_status_invalid)
next
  assume a: "Order_findById i d \<noteq> None
        \<and> req_status \<in> set (map Some [''pending'', ''paid'', ''cancelled''])"
  then obtain r where r: "Order_findById i d = Some r" by blast
  from a obtain s where s: "req_status = Some s" "s \<in> set [''pending'', ''paid'', ''cancelled'']"
    by auto
  show "fst (put_orders_status d i req_status) = send 200"
    unfolding s(1) put_orders_status_ok[OF r s(2)] by simp
qed

theorem status_transition_outcomes_witness:
  "Order_findById 7 ledger = None
   \<and> fst (put_orders_status ledger 7 (Some ''paid'')) = \<lparr>code = 404, location = None, data = None\<rparr>
   \<and> Order_findById 1 ledger \<noteq> None
   \<and> Some ''shipped'' \<notin> set (map Some [''pending'', ''paid'', ''cancelled''])
   \<and> fst (put_orders_status ledger 1 (Some ''shipped'')) = \<lparr>code = 400, location = None, data = None\<rparr>
   \<and> Some ''paid'' \<in> set (map Some [''pending'', ''paid'', ''cancelled''])
   \<and> fst (put_orders_status ledger 1 (Some ''paid'')) = \<lparr>code = 200, location = None, data = None\<rparr>"
proof -
  have f: "Order_findById 1 ledger \<noteq> None" by (simp add: ledger_order_1)
  have bad: "Some ''shipped'' \<notin> set (map Some [''pending'', ''paid'', ''cancelled''])" by simp
  have good: "Some ''paid'' \<in> set (map Some [''pending'', ''paid'', ''cancelled''])" by simp
  from status_transition_outcomes[of 7 ledger "Some ''paid''"] ledger_order_7
  have "fst (put_orders_status ledger 7 (Some ''paid'')) = send 404" by blast
  moreover from status_transition_outcomes[of 1 ledger "Some ''shipped''"] f bad
  have "fst (put_orders_status ledger 1 (Some ''shipped'')) = send 400" by blast
  moreover from status_transition_outcomes[of 1 ledger "Some ''paid''"] f good
  have "fst (put_orders_status ledger 1 (Some ''paid'')) = send 200" by blast
  ultimately show ?thesis using ledger_order_7 f bad good by (simp add: send_def)
qed

text \<open>
  C10. A status request that fails, because no order has the identifier or because the
  requested status is not recognised, is answered 404 or 400 and leaves the database as
  it was: no bill is added and the order, if there is one, is unchanged.
\<close>

theorem failed_transition_changes_nothing:
  assumes "Order_findById i d = None
           \<or> req_status \<notin> set (map Some [''pending'', ''paid'', ''cancelled''])"
  shows "fst (put_orders_status d i req_status) \<in> {send 404, send 400}
       \<and> snd (put_orders_status d i req_status) = d
       \<and> bills (snd (put_orders_status d i req_status)) = bills d
       \<and> Order_findById i (snd (put_orders_status d i req_status)) = Order_findById i d"
proof (cases "Order_findById i d")
  case None
  then show ?thesis by (simp add: put_orders_status_missing)
next
  case (Some r)
  with assms have "req_status \<notin> set (map Some [''pending'', ''paid'', ''cancelled''])" by simp
  from put_orders_status_invalid[OF Some this] show ?thesis by simp
qed

theorem failed_transition_changes_nothing_witness:
  "Order_findById 7 ledger = None
   \<and> put_orders_status ledger 7 (Some ''paid'') = (send 404, ledger)
   \<and> Some ''shipped'' \<notin> set (map Some [''pending'', ''paid'', ''cancelled''])
   \<and> put_orders_status ledger 1 (Some ''shipped'') = (send 400, ledger)"
proof -
  have h7: "Order_findById 7 ledger = None
      \<or> Some ''paid'' \<notin> set (map Some [''pending'', ''paid'', ''cancelled''])"
    by (simp add: ledger_order_7)
  have h1: "Order_findById 1 ledger = None
      \<or> Some ''shipped'' \<notin> set (map Some [''pending'', ''paid'', ''cancelled''])"
    by simp
  have c7: "code (fst (put_orders_status ledger 7 (Some ''paid''))) = 404"
    by (simp add: put_orders_status_missing[OF ledger_order_7] send_def)
  have c1: "code (fst (put_orders_status ledger 1 (Some ''shipped''))) = 400"
    by (simp add: put_orders_status_def ledger_order_1 send_def)
  from failed_transition_changes_nothing[OF h7] c7
  have "put_orders_status ledger 7 (Some ''paid'') = (send 404, ledger)"
    by (auto simp add: prod_eq_iff send_def)
  moreover from failed_transition_changes_nothing[OF h1] c1
  have "put_orders_status ledger 1 (Some ''shipped'') = (send 400, ledger)"
    by (auto simp add: prod_eq_iff send_def)
  ultimately show ?thesis using ledger_order_7 by simp
qed

end
